theory Spec2Isabelle
  imports Complex_Main
begin

section \<open>The Hivemind strategy adapter and its scheduler shim\<close>

text \<open>
  A shallow embedding of \<^verbatim>\<open>lightning_hivemind/strategy.py\<close>. The strategy object is a
  record that is passed through every method and returned updated. Calls into the two
  wrapped libraries (the peer-to-peer library and the host training framework) are not
  implemented in this repository: each such call is recorded, in program order, as an
  event of the field \<open>events\<close>, and is taken to return normally. Every \<^verbatim>\<open>raise\<close> of the
  adapter itself is a branch of the model, and so is every exception that its own
  statements raise before a library is entered.
\<close>

subsection \<open>Python values\<close>

datatype pyval = PyNone | PyBool bool | PyInt int | PyFloat real | PyStr string

type_synonym pydict = "(string \<times> pyval) list"

text \<open>Truthiness of an \<^verbatim>\<open>Optional[bool]\<close>, and Python's \<^verbatim>\<open>a or b\<close>, which returns
  its first operand when that is truthy and its second operand otherwise.\<close>

definition truthy :: "bool option \<Rightarrow> bool" where
  "truthy v = (case v of None \<Rightarrow> False | Some b \<Rightarrow> b)"

definition py_or :: "bool option \<Rightarrow> bool option \<Rightarrow> bool option" where
  "py_or a b = (if truthy a then a else b)"

text \<open>\<^verbatim>\<open>s.split(",")\<close>: every comma separates, so the empty string gives one empty field.\<close>

fun split_comma :: "string \<Rightarrow> string list" where
  "split_comma [] = [[]]"
| "split_comma (c # cs) =
     (if c = CHR '','' then [] # split_comma cs
      else (case split_comma cs of
              [] \<Rightarrow> [[c]]
            | w # ws \<Rightarrow> (c # w) # ws))"

text \<open>\<^verbatim>\<open>",".join(xs)\<close>.\<close>

fun join_comma :: "string list \<Rightarrow> string" where
  "join_comma [] = []"
| "join_comma [x] = x"
| "join_comma (x # y # ys) = x @ CHR '','' # join_comma (y # ys)"

subsection \<open>Errors, constructor arguments and external objects\<close>

datatype message =
    MustRunOnLinux
  | OnlyOneOptimizer
  | ProvideBatchSize
  | PlateauNotSupported

datatype error =
    MisconfigurationException message
  | ValueError message
  | IndexError
  | AssertionError
  | TypeError

text \<open>The \<^verbatim>\<open>initial_peers\<close> argument is \<^verbatim>\<open>Optional[Union[str, List]]\<close>.\<close>

datatype peers = PeersStr string | PeersList "string list"

type_synonym scheduler_fn = string

record init_args =
  target_batch_size :: int
  run_id :: string
  batch_size :: "int option"
  delay_state_averaging :: bool
  delay_optimizer_step :: "bool option"
  delay_grad_averaging :: bool
  offload_optimizer :: "bool option"
  reuse_grad_buffers :: bool
  scheduler_fn :: "scheduler_fn option"
  matchmaking_time :: real
  averaging_timeout :: "real option"
  verbose :: bool
  averager_opts :: "pydict option"
  host_maddrs :: "string list option"
  initial_peers :: "peers option"
  use_ipfs :: bool
  wait_timeout :: int
  bootstrap_timeout :: "real option"
  use_relay :: bool
  use_auto_relay :: bool
  identity_path :: "string option"
  optimizer_kwargs :: pydict

text \<open>The defaults of the constructor's signature; only \<^verbatim>\<open>target_batch_size\<close> is required.\<close>

definition default_args :: "int \<Rightarrow> init_args" where
  "default_args tbs =
     \<lparr> target_batch_size = tbs, run_id = ''lightning_run'', batch_size = None,
       delay_state_averaging = False, delay_optimizer_step = None,
       delay_grad_averaging = False, offload_optimizer = None,
       reuse_grad_buffers = False, scheduler_fn = None, matchmaking_time = 5,
       averaging_timeout = Some 30, verbose = False, averager_opts = None,
       host_maddrs = None, initial_peers = None, use_ipfs = False, wait_timeout = 3,
       bootstrap_timeout = None, use_relay = True, use_auto_relay = False,
       identity_path = None, optimizer_kwargs = [] \<rparr>"

text \<open>The keyword arguments of \<^verbatim>\<open>hivemind.DHT(...)\<close>.\<close>

record dht_args =
  dht_start :: bool
  dht_initial_peers :: "peers option"
  dht_host_maddrs :: "string list"
  dht_use_ipfs :: bool
  dht_ensure_bootstrap_success :: bool
  dht_wait_timeout :: int
  dht_bootstrap_timeout :: "real option"
  dht_use_relay :: bool
  dht_use_auto_relay :: bool
  dht_identity_path :: "string option"

text \<open>The dictionary \<^verbatim>\<open>self._optimizer_kwargs\<close>.\<close>

record opt_kwargs =
  kw_matchmaking_time :: real
  kw_averaging_timeout :: "real option"
  kw_delay_optimizer_step :: "bool option"
  kw_delay_state_averaging :: bool
  kw_delay_grad_averaging :: bool
  kw_offload_optimizer :: "bool option"
  kw_averager_opts :: "pydict option"
  kw_verbose :: bool
  kw_reuse_grad_buffers :: bool
  kw_extra :: pydict

text \<open>An optimizer object is either one the user registered with the trainer, or the
  peer-to-peer optimizer, which is identified by the arguments of its construction.\<close>

datatype optimizer =
    TorchOptimizer string "string list"
  | HivemindOptimizer
      (o_dht: dht_args) (o_run_id: string) (o_params: "string list option")
      (o_optimizer: optimizer_arg) (o_scheduler: "scheduler_fn option")
      (o_target_batch_size: int) (o_batch_size_per_step: "int option")
      (o_kwargs: opt_kwargs)
and optimizer_arg = OptimizerClass string | OptimizerInstance optimizer

text \<open>\<^verbatim>\<open>type(optimizer)\<close> and \<^verbatim>\<open>optimizer.param_groups\<close>.\<close>

fun type_of :: "optimizer \<Rightarrow> string" where
  "type_of (TorchOptimizer cls groups) = cls"
| "type_of (HivemindOptimizer d r p oa sch tbs bs kw) = ''hivemind.Optimizer''"

fun param_groups :: "optimizer \<Rightarrow> string list"
and arg_param_groups :: "optimizer_arg \<Rightarrow> string list" where
  "param_groups (TorchOptimizer cls groups) = groups"
| "param_groups (HivemindOptimizer d r p oa sch tbs bs kw) =
     (case p of Some groups \<Rightarrow> groups | None \<Rightarrow> arg_param_groups oa)"
| "arg_param_groups (OptimizerClass cls) = []"
| "arg_param_groups (OptimizerInstance opt) = param_groups opt"

text \<open>A scheduler of a configuration of the trainer: a scheduler of the user, where
  \<^verbatim>\<open>isinstance(scheduler, ReduceLROnPlateau)\<close> tells the two kinds apart, or the shim
  (class \<^verbatim>\<open>HiveMindScheduler\<close>) with its three attributes \<^verbatim>\<open>optimizer\<close>, \<^verbatim>\<open>scheduler\<close> and \<^verbatim>\<open>current_step\<close>.\<close>

datatype scheduler =
    LRScheduler string
  | ReduceLROnPlateau string
  | Wrapped hivemind_scheduler
and hivemind_scheduler =
    HiveMindScheduler (optimizer: optimizer) (scheduler: scheduler) (current_step: int)

text \<open>The gradient-zeroing hook of the model: the framework's own, or one of the user.\<close>

datatype hook = InheritedZeroGrad | OverriddenZeroGrad string

record lightning_module =
  optimizer_zero_grad :: "hook option"

datatype warning = RequiresSchedulerFn | ZeroGradDisabled

datatype log_message =
    OtherMachinesCanConnect string
  | FoundBatchSize int
  | ShuttingDownDHT

datatype event =
    DHT_created dht_args
  | LogInfo log_message
  | RankZeroWarn warning
  | Optimizer_created optimizer
  | LoadStateFromPeers
  | OptimizerShutdown
  | DHTShutdown
  | SuperTeardown

text \<open>A multi-address that the peer handle reports as visible: its text \<^verbatim>\<open>str(a)\<close> and
  whether the address of its first component is a loopback address.\<close>

record maddr =
  maddr_str :: string
  is_loopback :: bool

subsection \<open>The strategy object\<close>

record strategy =
  self_initial_peers :: "peers option"
  self_target_batch_size :: int
  self_batch_size :: "int option"
  self_scheduler_fn :: "scheduler_fn option"
  self_require_scheduler_fn :: "bool option"
  self_opt :: "optimizer option"
  self_optimizer_zero_grad_original :: "hook option"
  self_run_id :: string
  self_reuse_grad_buffers :: bool
  self_optimizer_kwargs :: opt_kwargs
  self_dht :: dht_args
  self_hivemind_initialized :: bool
  optimizers :: "optimizer list"
  lr_scheduler_configs :: "scheduler list"
  lightning_module :: "lightning_module option"
  events :: "event list"

definition INITIAL_PEERS_ENV :: string where
  "INITIAL_PEERS_ENV = ''PL_INITIAL_PEERS''"

text \<open>\<^verbatim>\<open>os.environ.get(key, default)\<close> gives the variable when it is set and the default
  otherwise; a string is then split, anything else leaves the field as it was.\<close>

definition parse_env_initial_peers :: "(string \<rightharpoonup> string) \<Rightarrow> strategy \<Rightarrow> strategy" where
  "parse_env_initial_peers environ self =
     (let initial_peers' =
            (case environ INITIAL_PEERS_ENV of
               Some v \<Rightarrow> Some (PeersStr v)
             | None \<Rightarrow> self_initial_peers self)
      in self\<lparr>self_initial_peers :=
                (case initial_peers' of
                   Some (PeersStr s) \<Rightarrow> Some (PeersList (split_comma s))
                 | _ \<Rightarrow> self_initial_peers self)\<rparr>)"

definition default_host_maddrs :: "string list" where
  "default_host_maddrs = [''/ip4/0.0.0.0/tcp/0'', ''/ip4/0.0.0.0/udp/0/quic'']"

text \<open>The body of the constructor after its check of the operating system. It receives
  what the process reads from its surroundings: the environment, and the addresses the
  started peer handle reports. The base class starts with no optimizer, no scheduler
  configuration and no model; the trainer registers them later.\<close>

definition constructed :: "(string \<rightharpoonup> string) \<Rightarrow> maddr list \<Rightarrow> init_args \<Rightarrow> strategy" where
  "constructed environ visible_maddrs a =
       (let d = \<lparr> dht_start = True,
                  dht_initial_peers = initial_peers a,
                  dht_host_maddrs =
                    (case host_maddrs a of Some hs \<Rightarrow> hs | None \<Rightarrow> default_host_maddrs),
                  dht_use_ipfs = use_ipfs a,
                  dht_ensure_bootstrap_success = True,
                  dht_wait_timeout = wait_timeout a,
                  dht_bootstrap_timeout = bootstrap_timeout a,
                  dht_use_relay = use_relay a,
                  dht_use_auto_relay = use_auto_relay a,
                  dht_identity_path = identity_path a \<rparr>;
            self0 = \<lparr> self_initial_peers = initial_peers a,
                      self_target_batch_size = target_batch_size a,
                      self_batch_size = batch_size a,
                      self_scheduler_fn = scheduler_fn a,
                      self_require_scheduler_fn =
                        py_or (py_or (delay_optimizer_step a) (Some (delay_state_averaging a)))
                              (offload_optimizer a),
                      self_opt = None,
                      self_optimizer_zero_grad_original = None,
                      self_run_id = run_id a,
                      self_reuse_grad_buffers = reuse_grad_buffers a,
                      self_optimizer_kwargs =
                        \<lparr> kw_matchmaking_time = matchmaking_time a,
                          kw_averaging_timeout = averaging_timeout a,
                          kw_delay_optimizer_step = delay_optimizer_step a,
                          kw_delay_state_averaging = delay_state_averaging a,
                          kw_delay_grad_averaging = delay_grad_averaging a,
                          kw_offload_optimizer = offload_optimizer a,
                          kw_averager_opts =
                            (if averaging_timeout a \<noteq> None then averager_opts a
                             else Some [(''request_timeout'', PyFloat 1)]),
                          kw_verbose = verbose a,
                          kw_reuse_grad_buffers = reuse_grad_buffers a,
                          kw_extra = optimizer_kwargs a \<rparr>,
                      self_dht = d,
                      self_hivemind_initialized = False,
                      optimizers = [],
                      lr_scheduler_configs = [],
                      lightning_module = None,
                      events = [] \<rparr>;
            self1 = parse_env_initial_peers environ self0;
            self2 = self1\<lparr>events := events self1 @ [DHT_created d]\<rparr>;
            visible_addresses =
              map maddr_str (filter (\<lambda>m. \<not> is_loopback m) visible_maddrs);
            self3 =
              (if initial_peers a = None
               then self2\<lparr>events := events self2 @
                      [LogInfo (OtherMachinesCanConnect (join_comma visible_addresses))]\<rparr>
               else self2)
        in self3\<lparr>self_hivemind_initialized := False\<rparr>)"

text \<open>The constructor. When it raises, it leaves no object behind.\<close>

definition HivemindStrategy_init ::
  "string \<Rightarrow> (string \<rightharpoonup> string) \<Rightarrow> maddr list \<Rightarrow> init_args \<Rightarrow> error + strategy" where
  "HivemindStrategy_init platform_system environ visible_maddrs a =
     (if platform_system \<noteq> ''Linux'' then Inl (MisconfigurationException MustRunOnLinux)
      else Inr (constructed environ visible_maddrs a))"

text \<open>The host trainer registers the optimizers and scheduler configurations of the
  user and the model with the strategy before training starts.\<close>

definition attach ::
  "optimizer list \<Rightarrow> scheduler list \<Rightarrow> lightning_module option \<Rightarrow> strategy \<Rightarrow> strategy" where
  "attach opts cfgs m self =
     self\<lparr>optimizers := opts, lr_scheduler_configs := cfgs, lightning_module := m\<rparr>"

subsection \<open>One-time optimizer construction\<close>

text \<open>A method returns the strategy, or raises and leaves the strategy as it was at the
  \<^verbatim>\<open>raise\<close>.\<close>

datatype result = Returned strategy | Raised error strategy

fun final_state :: "result \<Rightarrow> strategy" where
  "final_state (Returned self) = self"
| "final_state (Raised e self) = self"

fun raised :: "result \<Rightarrow> error option" where
  "raised (Returned self) = None"
| "raised (Raised e self) = Some e"

text \<open>The constructor of the shim: the counter starts at \<open>-1\<close>.\<close>

definition HiveMindScheduler_init :: "optimizer \<Rightarrow> scheduler \<Rightarrow> hivemind_scheduler" where
  "HiveMindScheduler_init opt sch = HiveMindScheduler opt sch (- 1)"

definition is_ReduceLROnPlateau :: "scheduler \<Rightarrow> bool" where
  "is_ReduceLROnPlateau sch = (case sch of ReduceLROnPlateau n \<Rightarrow> True | _ \<Rightarrow> False)"

text \<open>The loop of \<^verbatim>\<open>_wrap_schedulers\<close> over the configurations: each scheduler is
  replaced in place, so the ones before a rejected scheduler stay wrapped.\<close>

fun wrap_loop :: "optimizer \<Rightarrow> scheduler list \<Rightarrow> error option \<times> scheduler list" where
  "wrap_loop opt [] = (None, [])"
| "wrap_loop opt (sch # rest) =
     (if is_ReduceLROnPlateau sch then (Some (ValueError PlateauNotSupported), sch # rest)
      else (case wrap_loop opt rest of
              (e, rest') \<Rightarrow> (e, Wrapped (HiveMindScheduler_init opt sch) # rest')))"

definition wrap_schedulers :: "optimizer \<Rightarrow> strategy \<Rightarrow> result" where
  "wrap_schedulers opt self =
     (case wrap_loop opt (lr_scheduler_configs self) of
        (None, cfgs) \<Rightarrow> Returned (self\<lparr>lr_scheduler_configs := cfgs\<rparr>)
      | (Some e, cfgs) \<Rightarrow> Raised e (self\<lparr>lr_scheduler_configs := cfgs\<rparr>))"

text \<open>\<^verbatim>\<open>is_overridden("optimizer_zero_grad", module)\<close>: false without a module or without
  the attribute.\<close>

definition is_overridden :: "lightning_module option \<Rightarrow> bool" where
  "is_overridden m =
     (case m of
        None \<Rightarrow> False
      | Some lm \<Rightarrow> (case optimizer_zero_grad lm of
                     Some (OverriddenZeroGrad n) \<Rightarrow> True
                   | _ \<Rightarrow> False))"

definition emit :: "event \<Rightarrow> strategy \<Rightarrow> strategy" where
  "emit ev self = self\<lparr>events := events self @ [ev]\<rparr>"

definition disable_zero_grad :: "strategy \<Rightarrow> result" where
  "disable_zero_grad self =
     (let self1 = (if is_overridden (lightning_module self)
                   then emit (RankZeroWarn ZeroGradDisabled) self else self)
      in case lightning_module self1 of
           None \<Rightarrow> Raised AssertionError self1
         | Some lm \<Rightarrow>
             Returned (self1\<lparr>lightning_module := Some (lm\<lparr>optimizer_zero_grad := None\<rparr>)\<rparr>))"

text \<open>The call \<^verbatim>\<open>hivemind.Optimizer(...)\<close> of one-time construction passes seven keyword
  arguments by name and the dictionary \<^verbatim>\<open>self._optimizer_kwargs\<close> after them. A key of the
  dictionary that repeats one of the seven names makes the call itself raise a
  \<^verbatim>\<open>TypeError\<close> (multiple values for a keyword argument), before anything is constructed.
  Of the keys of the dictionary, only the pass-through ones can repeat a name.\<close>

definition explicit_keywords :: "string list" where
  "explicit_keywords =
     [''dht'', ''run_id'', ''params'', ''optimizer'', ''scheduler'', ''target_batch_size'',
      ''batch_size_per_step'']"

definition keyword_collision :: "pydict \<Rightarrow> bool" where
  "keyword_collision kwargs = list_ex (\<lambda>kv. List.member explicit_keywords (fst kv)) kwargs"

text \<open>With a delay or offload flag the registered optimizer is passed by type and
  parameter groups, and the scheduler factory with it; otherwise the optimizer object
  itself is passed.\<close>

definition new_optimizer :: "strategy \<Rightarrow> optimizer \<Rightarrow> error + optimizer" where
  "new_optimizer self optimizer0 =
     (let req = truthy (self_require_scheduler_fn self);
          scheduler' = (if req then self_scheduler_fn self else None);
          params = (if req then Some (param_groups optimizer0) else None);
          optimizer' = (if req then OptimizerClass (type_of optimizer0)
                        else OptimizerInstance optimizer0)
      in if keyword_collision (kw_extra (self_optimizer_kwargs self)) then Inl TypeError
         else Inr (HivemindOptimizer (self_dht self) (self_run_id self) params optimizer'
                     scheduler' (self_target_batch_size self) (self_batch_size self)
                     (self_optimizer_kwargs self)))"

definition initialize_hivemind :: "strategy \<Rightarrow> result" where
  "initialize_hivemind self =
     (if length (optimizers self) > 1
      then Raised (MisconfigurationException OnlyOneOptimizer) self
      else case optimizers self of
        [] \<Rightarrow> Raised IndexError self
      | optimizer0 # others \<Rightarrow>
          let self1 = (if truthy (self_require_scheduler_fn self) \<and>
                          self_scheduler_fn self = None
                       then emit (RankZeroWarn RequiresSchedulerFn) self else self)
          in case new_optimizer self1 optimizer0 of
               Inl e \<Rightarrow> Raised e self1
             | Inr opt \<Rightarrow>
                 let self2 = emit (Optimizer_created opt) self1
                 in case (if self_scheduler_fn self2 = None then wrap_schedulers opt self2
                          else Returned self2) of
                      Raised e self3 \<Rightarrow> Raised e self3
                    | Returned self3 \<Rightarrow>
                        let self4 = emit LoadStateFromPeers self3;
                            self5 = self4\<lparr>optimizers := [opt], self_opt := Some opt\<rparr>
                        in if self_reuse_grad_buffers self5
                           then (case lightning_module self5 of
                                   None \<Rightarrow> Raised AssertionError self5
                                 | Some lm \<Rightarrow>
                                     disable_zero_grad
                                       (self5\<lparr>self_optimizer_zero_grad_original :=
                                                 optimizer_zero_grad lm\<rparr>))
                           else Returned self5)"

subsection \<open>The hooks of the training loop\<close>

text \<open>What \<^verbatim>\<open>extract_batch_size(batch)\<close> of the host framework does with a batch: it
  returns the size, or raises one of the two exceptions the hook catches.\<close>

datatype extract_result = BatchSize int | RaisesMisconfiguration | RaisesRecursionError

definition on_train_batch_start ::
  "('b \<Rightarrow> extract_result) \<Rightarrow> 'b \<Rightarrow> nat \<Rightarrow> strategy \<Rightarrow> result" where
  "on_train_batch_start extract_batch_size batch batch_idx self =
     (if \<not> self_hivemind_initialized self then
        let self1 = self\<lparr>self_hivemind_initialized := True\<rparr>
        in case self_batch_size self1 of
             Some n \<Rightarrow> initialize_hivemind self1
           | None \<Rightarrow>
               (case extract_batch_size batch of
                  BatchSize n \<Rightarrow>
                    initialize_hivemind
                      (emit (LogInfo (FoundBatchSize n)) (self1\<lparr>self_batch_size := Some n\<rparr>))
                | RaisesMisconfiguration \<Rightarrow>
                    Raised (MisconfigurationException ProvideBatchSize) self1
                | RaisesRecursionError \<Rightarrow>
                    Raised (MisconfigurationException ProvideBatchSize) self1)
      else Returned self)"

text \<open>A training run calls the hook once per batch and stops at the first exception.\<close>

fun train_batches ::
  "('b \<Rightarrow> extract_result) \<Rightarrow> nat \<Rightarrow> 'b list \<Rightarrow> strategy \<Rightarrow> result" where
  "train_batches ex i [] self = Returned self"
| "train_batches ex i (b # bs) self =
     (case on_train_batch_start ex b i self of
        Raised e self' \<Rightarrow> Raised e self'
      | Returned self' \<Rightarrow> train_batches ex (Suc i) bs self')"

text \<open>The collective operations: each returns its value and the unchanged strategy.\<close>

definition reduce :: "strategy \<Rightarrow> 'a \<Rightarrow> 'c \<Rightarrow> 'a \<times> strategy" where
  "reduce self tensor args = (tensor, self)"

definition all_gather :: "strategy \<Rightarrow> 'a \<Rightarrow> 'g option \<Rightarrow> bool \<Rightarrow> 'a \<times> strategy" where
  "all_gather self tensor grp sync_grads = (tensor, self)"

definition barrier :: "strategy \<Rightarrow> 'c \<Rightarrow> strategy" where
  "barrier self args = self"

definition broadcast :: "strategy \<Rightarrow> 'a \<Rightarrow> int \<Rightarrow> 'a \<times> strategy" where
  "broadcast self obj src = (obj, self)"

definition teardown :: "strategy \<Rightarrow> strategy" where
  "teardown self =
     (let self1 =
            (case (self_optimizer_zero_grad_original self, lightning_module self) of
               (Some h, Some lm) \<Rightarrow>
                 self\<lparr>lightning_module := Some (lm\<lparr>optimizer_zero_grad := Some h\<rparr>)\<rparr>
             | _ \<Rightarrow> self);
          self2 = (if self_opt self1 \<noteq> None then emit OptimizerShutdown self1 else self1)
      in emit SuperTeardown (emit DHTShutdown (emit (LogInfo ShuttingDownDHT) self2)))"

subsection \<open>The step of the scheduler shim\<close>

text \<open>\<^verbatim>\<open>HiveMindScheduler.step\<close>. The global step \<^verbatim>\<open>self.optimizer.local_epoch\<close> is state of
  the peer-to-peer optimizer and is an argument here: the loop reads it at each test, and
  the model takes it as unchanged during one call. Each call
  \<^verbatim>\<open>self.scheduler.step(epoch=epoch)\<close> to the wrapped scheduler is recorded with the
  value of the counter at the call and the argument forwarded.\<close>

type_synonym step_call = "int \<times> int option"

function step ::
  "int \<Rightarrow> int option \<Rightarrow> hivemind_scheduler \<times> step_call list
     \<Rightarrow> hivemind_scheduler \<times> step_call list" where
  "step local_epoch epoch (HiveMindScheduler opt sch cur, calls) =
     (if cur < local_epoch
      then step local_epoch epoch
             (HiveMindScheduler opt sch (cur + 1), calls @ [(cur, epoch)])
      else (HiveMindScheduler opt sch cur, calls))"
  by pat_completeness auto
termination
  by (relation "measure (\<lambda>(local_epoch, epoch, h, calls). nat (local_epoch - current_step h))")
     auto

text \<open>A sequence of calls of the shim's step; each comes with the global step the
  optimizer reports at that time and the argument of the call.\<close>

fun steps ::
  "(int \<times> int option) list \<Rightarrow> hivemind_scheduler \<times> step_call list
     \<Rightarrow> hivemind_scheduler \<times> step_call list" where
  "steps [] st = st"
| "steps ((local_epoch, epoch) # rest) st = steps rest (step local_epoch epoch st)"

section \<open>Properties\<close>

subsection \<open>Auxiliary facts\<close>

lemma init_Linux:
  "HivemindStrategy_init ''Linux'' environ vis a = Inr (constructed environ vis a)"
  by (simp add: HivemindStrategy_init_def)

lemma emit_simps [simp]:
  "events (emit ev s) = events s @ [ev]"
  "optimizers (emit ev s) = optimizers s"
  "lr_scheduler_configs (emit ev s) = lr_scheduler_configs s"
  "lightning_module (emit ev s) = lightning_module s"
  "self_opt (emit ev s) = self_opt s"
  "self_hivemind_initialized (emit ev s) = self_hivemind_initialized s"
  "self_scheduler_fn (emit ev s) = self_scheduler_fn s"
  "self_require_scheduler_fn (emit ev s) = self_require_scheduler_fn s"
  "self_reuse_grad_buffers (emit ev s) = self_reuse_grad_buffers s"
  "self_optimizer_zero_grad_original (emit ev s) = self_optimizer_zero_grad_original s"
  "self_batch_size (emit ev s) = self_batch_size s"
  "self_optimizer_kwargs (emit ev s) = self_optimizer_kwargs s"
  "self_dht (emit ev s) = self_dht s"
  "self_run_id (emit ev s) = self_run_id s"
  "self_target_batch_size (emit ev s) = self_target_batch_size s"
  "self_initial_peers (emit ev s) = self_initial_peers s"
  by (simp_all add: emit_def)

lemma new_optimizer_emit [simp]: "new_optimizer (emit ev s) optimizer0 = new_optimizer s optimizer0"
  by (simp add: new_optimizer_def Let_def cong: if_cong)

lemma wrap_loop_error:
  "fst (wrap_loop opt cfgs) =
     (if list_ex is_ReduceLROnPlateau cfgs then Some (ValueError PlateauNotSupported) else None)"
  by (induction cfgs) (auto split: prod.splits)

lemma wrap_schedulers_cases:
  "wrap_schedulers opt s =
     (if list_ex is_ReduceLROnPlateau (lr_scheduler_configs s)
      then Raised (ValueError PlateauNotSupported)
             (s\<lparr>lr_scheduler_configs := snd (wrap_loop opt (lr_scheduler_configs s))\<rparr>)
      else Returned (s\<lparr>lr_scheduler_configs := snd (wrap_loop opt (lr_scheduler_configs s))\<rparr>))"
  using wrap_loop_error [of opt "lr_scheduler_configs s"]
  by (cases "wrap_loop opt (lr_scheduler_configs s)")
     (auto simp: wrap_schedulers_def split: option.splits)

lemma keyword_collision_Nil [simp]: "\<not> keyword_collision []"
  by (simp add: keyword_collision_def)

lemma new_optimizer_Inl:
  "new_optimizer s optimizer0 = Inl e \<longleftrightarrow>
     keyword_collision (kw_extra (self_optimizer_kwargs s)) \<and> e = TypeError"
  by (auto simp: new_optimizer_def Let_def)

lemma new_optimizer_Inr:
  "\<not> keyword_collision (kw_extra (self_optimizer_kwargs s)) \<Longrightarrow>
     \<exists>opt. new_optimizer s optimizer0 = Inr opt \<and> o_kwargs opt = self_optimizer_kwargs s"
  by (simp add: new_optimizer_def Let_def)

lemma initialize_type_error:
  assumes "optimizers s = [optimizer0]"
    and "keyword_collision (kw_extra (self_optimizer_kwargs s))"
  shows "initialize_hivemind s =
     Raised TypeError
       (if truthy (self_require_scheduler_fn s) \<and> self_scheduler_fn s = None
        then emit (RankZeroWarn RequiresSchedulerFn) s else s)"
proof -
  have "new_optimizer s optimizer0 = Inl TypeError"
    using assms(2) by (simp add: new_optimizer_Inl)
  then show ?thesis
    using assms(1) by (simp add: initialize_hivemind_def Let_def)
qed

lemma initialize_events:
  assumes "optimizers s = [optimizer0]" and "new_optimizer s optimizer0 = Inr opt"
  shows "events (final_state (initialize_hivemind s)) =
     events s
     @ (if truthy (self_require_scheduler_fn s) \<and> self_scheduler_fn s = None
        then [RankZeroWarn RequiresSchedulerFn] else [])
     @ [Optimizer_created opt]
     @ (if self_scheduler_fn s = None \<and> list_ex is_ReduceLROnPlateau (lr_scheduler_configs s)
        then []
        else LoadStateFromPeers #
          (if self_reuse_grad_buffers s \<and> is_overridden (lightning_module s)
           then [RankZeroWarn ZeroGradDisabled] else []))"
  using assms
  by (simp add: initialize_hivemind_def Let_def wrap_schedulers_cases
        disable_zero_grad_def is_overridden_def
      split: option.splits)

lemma initialize_raised:
  assumes "optimizers s = [optimizer0]" and "new_optimizer s optimizer0 = Inr opt"
  shows "raised (initialize_hivemind s) =
     (if self_scheduler_fn s = None \<and> list_ex is_ReduceLROnPlateau (lr_scheduler_configs s)
      then Some (ValueError PlateauNotSupported)
      else if self_reuse_grad_buffers s \<and> lightning_module s = None then Some AssertionError
      else None)"
  using assms
  by (simp add: initialize_hivemind_def Let_def wrap_schedulers_cases
        disable_zero_grad_def is_overridden_def
      split: option.splits)

lemma initialize_keeps_flag:
  "self_hivemind_initialized (final_state (initialize_hivemind s)) = self_hivemind_initialized s"
  by (simp add: initialize_hivemind_def Let_def wrap_schedulers_cases
        disable_zero_grad_def is_overridden_def
      split: option.splits list.splits sum.splits)

lemma initialize_opt_on_plateau:
  assumes "optimizers s = [optimizer0]" "self_scheduler_fn s = None"
    "list_ex is_ReduceLROnPlateau (lr_scheduler_configs s)"
  shows "self_opt (final_state (initialize_hivemind s)) = self_opt s
       \<and> optimizers (final_state (initialize_hivemind s)) = optimizers s"
  using assms
  by (simp add: initialize_hivemind_def Let_def wrap_schedulers_cases split: sum.splits)

lemma hook_sets_flag:
  "self_hivemind_initialized (final_state (on_train_batch_start ex b i s))"
  using initialize_keeps_flag
  by (simp add: on_train_batch_start_def Let_def split: option.splits extract_result.splits)

lemma train_batches_initialized:
  "self_hivemind_initialized s \<Longrightarrow> train_batches ex i bs s = Returned s"
  by (induction bs arbitrary: i) (simp_all add: on_train_batch_start_def)

lemma train_batches_first:
  "train_batches ex i (b # bs) s = on_train_batch_start ex b i s"
proof (cases "on_train_batch_start ex b i s")
  case (Returned s')
  with hook_sets_flag [of ex b i s] have "self_hivemind_initialized s'" by simp
  with Returned show ?thesis by (simp add: train_batches_initialized)
next
  case (Raised e s')
  then show ?thesis by simp
qed

lemma constructed_fields:
  "self_scheduler_fn (constructed environ vis a) = scheduler_fn a"
  "truthy (self_require_scheduler_fn (constructed environ vis a)) =
     (truthy (delay_optimizer_step a) \<or> delay_state_averaging a \<or> truthy (offload_optimizer a))"
  "self_batch_size (constructed environ vis a) = batch_size a"
  "self_reuse_grad_buffers (constructed environ vis a) = reuse_grad_buffers a"
  "self_hivemind_initialized (constructed environ vis a) = False"
  "self_opt (constructed environ vis a) = None"
  "self_optimizer_zero_grad_original (constructed environ vis a) = None"
  "kw_extra (self_optimizer_kwargs (constructed environ vis a)) = optimizer_kwargs a"
  "events (constructed environ vis a) =
     DHT_created (self_dht (constructed environ vis a)) #
       (if initial_peers a = None
        then [LogInfo (OtherMachinesCanConnect
                (join_comma (map maddr_str (filter (\<lambda>m. \<not> is_loopback m) vis))))]
        else [])"
  by (simp_all add: constructed_def Let_def parse_env_initial_peers_def py_or_def truthy_def
        split: option.splits)

lemma step_closed_form:
  "step local_epoch epoch (HiveMindScheduler opt sch cur, calls) =
     (HiveMindScheduler opt sch (max cur local_epoch),
      calls @ map (\<lambda>k. (k, epoch)) [cur..local_epoch - 1])"
proof (induction "nat (local_epoch - cur)" arbitrary: cur calls)
  case 0
  then show ?case by simp
next
  case (Suc n)
  then have lt: "cur < local_epoch" and n: "n = nat (local_epoch - (cur + 1))"
    by linarith+
  have "[cur..local_epoch - 1] = cur # [cur + 1..local_epoch - 1]"
    using lt by (simp add: upto_rec1)
  with Suc.hyps(1) [OF n] lt show ?case by simp
qed

lemma steps_invariant:
  assumes "map fst calls = [lo..cur - 1]" "lo \<le> cur"
    and "steps obs (HiveMindScheduler opt sch cur, calls) = (h, calls')"
  shows "h = HiveMindScheduler opt sch (Max (insert cur (fst ` set obs)))
       \<and> map fst calls' = [lo..current_step h - 1]"
  using assms
proof (induction obs arbitrary: cur calls)
  case Nil
  then show ?case by auto
next
  case (Cons ob obs)
  obtain le ep where ob: "ob = (le, ep)" by (cases ob)
  let ?cur = "max cur le"
  let ?calls = "calls @ map (\<lambda>k. (k, ep)) [cur..le - 1]"
  have a: "map fst ?calls = [lo..?cur - 1]"
  proof (cases "cur < le")
    case True
    have "[lo..le - 1] = [lo..cur - 1] @ [cur..le - 1]"
    proof (cases "lo = cur")
      case True
      then show ?thesis by simp
    next
      case False
      with Cons.prems(2) have "lo \<le> cur - 1" by simp
      from upto_split2 [OF this, of "le - 1"] True show ?thesis by simp
    qed
    then show ?thesis using True Cons.prems(1) by (simp add: comp_def max_def)
  next
    case False
    then show ?thesis using Cons.prems(1) by (simp add: max_def)
  qed
  have b: "lo \<le> ?cur" using Cons.prems(2) by simp
  have c: "steps obs (HiveMindScheduler opt sch ?cur, ?calls) = (h, calls')"
    using Cons.prems(3) by (simp add: ob step_closed_form del: step.simps)
  have m: "Max (insert ?cur (fst ` set obs)) = Max (insert cur (fst ` set (ob # obs)))"
  proof -
    have "Max (insert cur (fst ` set (ob # obs))) = Max (insert cur (insert le (fst ` set obs)))"
      by (simp add: ob)
    also have "\<dots> = max cur (Max (insert le (fst ` set obs)))"
      by (rule Max_insert) simp_all
    also have "\<dots> = max cur (max le (Max (insert le (fst ` set obs))))"
      by (simp add: max_def)
    finally show ?thesis
      by (cases "fst ` set obs = {}") (auto simp: max_def)
  qed
  from Cons.IH [OF a b c] m show ?case by simp
qed

lemma truthy_simps [simp]: "truthy None = False" "truthy (Some b) = b"
  by (simp_all add: truthy_def)

lemma raised_None: "raised r = None \<Longrightarrow> r = Returned (final_state r)"
  by (cases r) simp_all

lemma attach_fields [simp]:
  "optimizers (attach opts cfgs m s) = opts"
  "lr_scheduler_configs (attach opts cfgs m s) = cfgs"
  "lightning_module (attach opts cfgs m s) = m"
  "events (attach opts cfgs m s) = events s"
  "self_opt (attach opts cfgs m s) = self_opt s"
  "self_hivemind_initialized (attach opts cfgs m s) = self_hivemind_initialized s"
  "self_scheduler_fn (attach opts cfgs m s) = self_scheduler_fn s"
  "self_require_scheduler_fn (attach opts cfgs m s) = self_require_scheduler_fn s"
  "self_reuse_grad_buffers (attach opts cfgs m s) = self_reuse_grad_buffers s"
  "self_batch_size (attach opts cfgs m s) = self_batch_size s"
  "self_optimizer_zero_grad_original (attach opts cfgs m s) = self_optimizer_zero_grad_original s"
  "self_optimizer_kwargs (attach opts cfgs m s) = self_optimizer_kwargs s"
  by (simp_all add: attach_def)

lemma wrap_loop_keeps_plateau:
  "ReduceLROnPlateau n \<in> set cfgs \<Longrightarrow> ReduceLROnPlateau n \<in> set (snd (wrap_loop opt cfgs))"
  by (induction cfgs) (auto simp: is_ReduceLROnPlateau_def split: prod.splits)

lemma list_ex_plateau: "ReduceLROnPlateau n \<in> set cfgs \<Longrightarrow> list_ex is_ReduceLROnPlateau cfgs"
  by (force simp: list_ex_iff is_ReduceLROnPlateau_def)

lemma sorted_le_last: "sorted xs \<Longrightarrow> y \<in> set xs \<Longrightarrow> y \<le> last xs"
  by (induction xs) auto

lemma teardown_events:
  "events (teardown s) =
     events s @ (case self_opt s of None \<Rightarrow> [] | Some opt \<Rightarrow> [OptimizerShutdown])
       @ [LogInfo ShuttingDownDHT, DHTShutdown, SuperTeardown]"
  by (simp add: teardown_def Let_def split: option.splits prod.splits)

lemma teardown_module:
  "lightning_module (teardown s) =
     (case (self_optimizer_zero_grad_original s, lightning_module s) of
        (Some h, Some lm) \<Rightarrow> Some (lm\<lparr>optimizer_zero_grad := Some h\<rparr>)
      | _ \<Rightarrow> lightning_module s)"
  by (simp add: teardown_def Let_def split: option.splits prod.splits)

lemma initialize_returned_reuse:
  assumes "initialize_hivemind s0 = Returned s" "self_reuse_grad_buffers s0"
    "lightning_module s0 = Some lm"
  shows "lightning_module s = Some (lm\<lparr>optimizer_zero_grad := None\<rparr>)
       \<and> self_optimizer_zero_grad_original s = optimizer_zero_grad lm
       \<and> self_opt s \<noteq> None"
proof -
  from assms(1) obtain optimizer0 where o: "optimizers s0 = [optimizer0]"
    by (cases "optimizers s0"; cases "tl (optimizers s0)")
       (auto simp: initialize_hivemind_def)
  show ?thesis
    using assms o
    by (auto simp: initialize_hivemind_def Let_def wrap_schedulers_cases
          disable_zero_grad_def
        split: if_splits sum.splits)
qed

subsection \<open>The constructor\<close>

text \<open>
  Claim C1, as amended. The claim reads: the peer list of the environment variable is used
  if and only if no explicit peer list was passed to the constructor. The code gives the
  variable the precedence instead, since \<^verbatim>\<open>os.environ.get\<close> takes the constructor argument
  as its default: whenever the variable is set, the internal peer list is the variable
  split on commas, whatever was passed; the constructor argument is used only when the
  variable is not set, a string split on commas and a list as it is.
\<close>

theorem initial_peers_resolution:
  "HivemindStrategy_init ''Linux'' environ vis a = Inr (constructed environ vis a) \<and>
   self_initial_peers (constructed environ vis a) =
     (case environ INITIAL_PEERS_ENV of
        Some v \<Rightarrow> Some (PeersList (split_comma v))
      | None \<Rightarrow> (case initial_peers a of
                   Some (PeersStr s) \<Rightarrow> Some (PeersList (split_comma s))
                 | other \<Rightarrow> other))"
  by (simp add: init_Linux constructed_def Let_def parse_env_initial_peers_def
        split: option.splits peers.splits)

text \<open>
  Claim C1 as stated fails: with the variable set to \<^verbatim>\<open>peerA,peerB\<close> and the explicit list
  \<^verbatim>\<open>["peerX"]\<close> passed to the constructor, the internal peer list is the one of the
  variable and not the explicit one.
\<close>

theorem environment_overrides_explicit_peers:
  "HivemindStrategy_init ''Linux'' [INITIAL_PEERS_ENV \<mapsto> ''peerA,peerB''] []
     ((default_args 1)\<lparr>initial_peers := Some (PeersList [''peerX''])\<rparr>)
   = Inr (constructed [INITIAL_PEERS_ENV \<mapsto> ''peerA,peerB''] []
            ((default_args 1)\<lparr>initial_peers := Some (PeersList [''peerX''])\<rparr>)) \<and>
   self_initial_peers
     (constructed [INITIAL_PEERS_ENV \<mapsto> ''peerA,peerB''] []
        ((default_args 1)\<lparr>initial_peers := Some (PeersList [''peerX''])\<rparr>))
   = Some (PeersList [''peerA'', ''peerB'']) \<and>
   initial_peers ((default_args 1)\<lparr>initial_peers := Some (PeersList [''peerX''])\<rparr>)
   = Some (PeersList [''peerX''])"
  by (simp add: init_Linux constructed_def Let_def parse_env_initial_peers_def)

text \<open>
  Claim C8. The peer handle is constructed with the constructor argument \<^verbatim>\<open>initial_peers\<close>
  as it was passed, whatever the environment holds: the peer list derived from the
  environment variable goes to the field \<^verbatim>\<open>_initial_peers\<close> only. The message that other
  machines can connect is logged if and only if the constructor argument is \<^verbatim>\<open>None\<close>; the
  construction of the peer handle and this message are the only effects of the constructor.
\<close>

theorem dht_receives_raw_initial_peers:
  "HivemindStrategy_init ''Linux'' environ vis a = Inr (constructed environ vis a) \<and>
   dht_initial_peers (self_dht (constructed environ vis a)) = initial_peers a \<and>
   events (constructed environ vis a) =
     DHT_created (self_dht (constructed environ vis a)) #
       (if initial_peers a = None
        then [LogInfo (OtherMachinesCanConnect
                (join_comma (map maddr_str (filter (\<lambda>m. \<not> is_loopback m) vis))))]
        else []) \<and>
   ((\<exists>msg. LogInfo (OtherMachinesCanConnect msg) \<in> set (events (constructed environ vis a)))
      = (initial_peers a = None)) \<and>
   self_initial_peers (constructed environ vis a) =
     (case environ INITIAL_PEERS_ENV of
        Some v \<Rightarrow> Some (PeersList (split_comma v))
      | None \<Rightarrow> (case initial_peers a of
                   Some (PeersStr s) \<Rightarrow> Some (PeersList (split_comma s))
                 | other \<Rightarrow> other))"
  by (simp add: init_Linux constructed_def Let_def parse_env_initial_peers_def
        split: option.splits peers.splits)

text \<open>
  Claim C10. The \<^verbatim>\<open>averager_opts\<close> stored by the constructor, which one-time construction
  forwards to the peer-to-peer optimizer, are the ones of the caller whenever
  \<^verbatim>\<open>averaging_timeout\<close> is not \<^verbatim>\<open>None\<close>, also when the caller passed \<^verbatim>\<open>None\<close> (as with the
  defaults, where the timeout is 30); the fallback \<^verbatim>\<open>{"request_timeout": 1.0}\<close> is taken
  exactly when \<^verbatim>\<open>averaging_timeout\<close> is \<^verbatim>\<open>None\<close>. The call of the optimizer carries the
  stored value whenever it is accepted, that is, unless a pass-through keyword argument
  repeats a keyword of the call.
\<close>

theorem averager_opts_keyed_on_averaging_timeout:
  "kw_averager_opts (self_optimizer_kwargs (constructed environ vis a)) =
     (if averaging_timeout a = None then Some [(''request_timeout'', PyFloat 1)]
      else averager_opts a) \<and>
   map_sum id (\<lambda>opt. kw_averager_opts (o_kwargs opt))
       (new_optimizer (attach [optimizer0] cfgs m (constructed environ vis a)) optimizer0) =
     (if keyword_collision (optimizer_kwargs a) then Inl TypeError
      else Inr (if averaging_timeout a = None then Some [(''request_timeout'', PyFloat 1)]
                else averager_opts a)) \<and>
   kw_averager_opts (self_optimizer_kwargs (constructed environ vis (default_args n))) = None"
  by (simp add: constructed_def Let_def parse_env_initial_peers_def new_optimizer_def
        attach_def default_args_def)

subsection \<open>Collective operations\<close>

text \<open>
  Claim C6. \<^verbatim>\<open>reduce\<close>, \<^verbatim>\<open>all_gather\<close> and \<^verbatim>\<open>broadcast\<close> return their argument unchanged,
  and \<^verbatim>\<open>barrier\<close> returns without any effect: none of the four changes the strategy.
\<close>

theorem collectives_are_identity:
  "reduce self tensor args = (tensor, self) \<and>
   all_gather self tensor grp sync_grads = (tensor, self) \<and>
   broadcast self obj src = (obj, self) \<and>
   barrier self args = self"
  by (simp add: reduce_def all_gather_def broadcast_def barrier_def)

subsection \<open>One-time optimizer construction\<close>

text \<open>
  Claim C4. With more than one optimizer registered, one-time construction raises the
  configuration error that only one optimizer is supported, and the strategy is as it was
  before the call: the list of optimizers is not replaced and no peer-to-peer optimizer
  has been constructed.
\<close>

theorem more_than_one_optimizer_fails:
  "length (optimizers self) > 1 \<Longrightarrow>
     initialize_hivemind self = Raised (MisconfigurationException OnlyOneOptimizer) self"
  by (simp add: initialize_hivemind_def)

theorem more_than_one_optimizer_fails_witness:
  "length (optimizers (attach [TorchOptimizer ''SGD'' [''g0''], TorchOptimizer ''Adam'' [''g1'']]
             [] None (constructed Map.empty [] (default_args 1)))) > 1 \<and>
   initialize_hivemind
     (attach [TorchOptimizer ''SGD'' [''g0''], TorchOptimizer ''Adam'' [''g1'']]
        [] None (constructed Map.empty [] (default_args 1)))
   = Raised (MisconfigurationException OnlyOneOptimizer)
       (attach [TorchOptimizer ''SGD'' [''g0''], TorchOptimizer ''Adam'' [''g1'']]
          [] None (constructed Map.empty [] (default_args 1)))"
  using more_than_one_optimizer_fails
    [of "attach [TorchOptimizer ''SGD'' [''g0''], TorchOptimizer ''Adam'' [''g1'']]
           [] None (constructed Map.empty [] (default_args 1))"]
  by (simp add: attach_def)

text \<open>
  Claim C9, as amended. The claim holds for the strategies that reach the wrapping of the
  schedulers: exactly one optimizer is registered and no pass-through keyword argument
  repeats a keyword of the optimizer call. Then, with no scheduler factory given, every
  registered scheduler that is a \<^verbatim>\<open>ReduceLROnPlateau\<close> instance makes one-time construction
  raise a \<^verbatim>\<open>ValueError\<close>: the scheduler is still in the configurations, not wrapped; the
  state is not loaded from the peers, and neither the optimizer list nor the reference to
  the peer-to-peer optimizer is replaced.
\<close>

theorem plateau_scheduler_rejected:
  assumes "length (optimizers self) = 1"
    and "\<not> keyword_collision (kw_extra (self_optimizer_kwargs self))"
    and "self_scheduler_fn self = None"
    and "ReduceLROnPlateau n \<in> set (lr_scheduler_configs self)"
  shows "raised (initialize_hivemind self) = Some (ValueError PlateauNotSupported) \<and>
         ReduceLROnPlateau n \<in> set (lr_scheduler_configs (final_state (initialize_hivemind self))) \<and>
         LoadStateFromPeers \<notin> set (drop (length (events self))
            (events (final_state (initialize_hivemind self)))) \<and>
         self_opt (final_state (initialize_hivemind self)) = self_opt self \<and>
         optimizers (final_state (initialize_hivemind self)) = optimizers self"
proof -
  from assms(1) obtain optimizer0 where o: "optimizers self = [optimizer0]"
    by (cases "optimizers self") auto
  from new_optimizer_Inr [OF assms(2)] obtain opt
    where n: "new_optimizer self optimizer0 = Inr opt" by blast
  have p: "list_ex is_ReduceLROnPlateau (lr_scheduler_configs self)"
    using assms(4) by (rule list_ex_plateau)
  have k: "ReduceLROnPlateau n \<in>
      set (lr_scheduler_configs (final_state (initialize_hivemind self)))"
    using o n p assms(3) wrap_loop_keeps_plateau [OF assms(4)]
    by (simp add: initialize_hivemind_def Let_def wrap_schedulers_cases)
  show ?thesis
    using initialize_raised [OF o n] initialize_events [OF o n]
      initialize_opt_on_plateau [OF o assms(3) p] p assms(3) k
    by simp
qed

theorem plateau_scheduler_rejected_witness:
  "length (optimizers
     (attach [TorchOptimizer ''SGD'' [''group0'']]
        [LRScheduler ''step'', ReduceLROnPlateau ''plateau''] None
        (constructed Map.empty [] (default_args 1)))) = 1 \<and>
   \<not> keyword_collision (kw_extra (self_optimizer_kwargs
     (attach [TorchOptimizer ''SGD'' [''group0'']]
        [LRScheduler ''step'', ReduceLROnPlateau ''plateau''] None
        (constructed Map.empty [] (default_args 1))))) \<and>
   self_scheduler_fn
     (attach [TorchOptimizer ''SGD'' [''group0'']]
        [LRScheduler ''step'', ReduceLROnPlateau ''plateau''] None
        (constructed Map.empty [] (default_args 1))) = None \<and>
   ReduceLROnPlateau ''plateau'' \<in> set (lr_scheduler_configs
     (attach [TorchOptimizer ''SGD'' [''group0'']]
        [LRScheduler ''step'', ReduceLROnPlateau ''plateau''] None
        (constructed Map.empty [] (default_args 1)))) \<and>
   raised (initialize_hivemind
     (attach [TorchOptimizer ''SGD'' [''group0'']]
        [LRScheduler ''step'', ReduceLROnPlateau ''plateau''] None
        (constructed Map.empty [] (default_args 1))))
     = Some (ValueError PlateauNotSupported)"
proof -
  let ?s = "attach [TorchOptimizer ''SGD'' [''group0'']]
        [LRScheduler ''step'', ReduceLROnPlateau ''plateau''] None
        (constructed Map.empty [] (default_args 1))"
  have a: "length (optimizers ?s) = 1" by simp
  have k: "\<not> keyword_collision (kw_extra (self_optimizer_kwargs ?s))"
    by (simp add: constructed_fields default_args_def)
  have b: "self_scheduler_fn ?s = None" by (simp add: constructed_fields default_args_def)
  have c: "ReduceLROnPlateau ''plateau'' \<in> set (lr_scheduler_configs ?s)" by simp
  from a k b c plateau_scheduler_rejected [OF a k b c] show ?thesis by blast
qed

text \<open>
  Claim C9 as stated fails, since two checks come before the schedulers are looked at.
  With a \<^verbatim>\<open>ReduceLROnPlateau\<close> scheduler registered and no scheduler factory, two registered
  optimizers give the configuration error that only one optimizer is supported, and the
  pass-through keyword argument \<^verbatim>\<open>scheduler=None\<close> gives the \<^verbatim>\<open>TypeError\<close> of the optimizer
  call; neither is a \<^verbatim>\<open>ValueError\<close>.
\<close>

theorem plateau_scheduler_not_reached:
  "raised (initialize_hivemind
     (attach [TorchOptimizer ''SGD'' [''group0''], TorchOptimizer ''Adam'' [''group1'']]
        [ReduceLROnPlateau ''plateau''] None
        (constructed Map.empty [] (default_args 1))))
     = Some (MisconfigurationException OnlyOneOptimizer) \<and>
   raised (initialize_hivemind
     (attach [TorchOptimizer ''SGD'' [''group0'']]
        [ReduceLROnPlateau ''plateau''] None
        (constructed Map.empty []
           ((default_args 1)\<lparr>optimizer_kwargs := [(''scheduler'', PyNone)]\<rparr>))))
     = Some TypeError \<and>
   self_scheduler_fn
     (attach [TorchOptimizer ''SGD'' [''group0''], TorchOptimizer ''Adam'' [''group1'']]
        [ReduceLROnPlateau ''plateau''] None
        (constructed Map.empty [] (default_args 1))) = None \<and>
   self_scheduler_fn
     (attach [TorchOptimizer ''SGD'' [''group0'']]
        [ReduceLROnPlateau ''plateau''] None
        (constructed Map.empty []
           ((default_args 1)\<lparr>optimizer_kwargs := [(''scheduler'', PyNone)]\<rparr>))) = None"
proof -
  let ?s = "attach [TorchOptimizer ''SGD'' [''group0'']]
        [ReduceLROnPlateau ''plateau''] None
        (constructed Map.empty []
           ((default_args 1)\<lparr>optimizer_kwargs := [(''scheduler'', PyNone)]\<rparr>))"
  have o: "optimizers ?s = [TorchOptimizer ''SGD'' [''group0'']]" by simp
  have k: "keyword_collision (kw_extra (self_optimizer_kwargs ?s))"
    by (simp add: constructed_fields keyword_collision_def explicit_keywords_def)
  let ?t = "attach [TorchOptimizer ''SGD'' [''group0''], TorchOptimizer ''Adam'' [''group1'']]
        [ReduceLROnPlateau ''plateau''] None
        (constructed Map.empty [] (default_args 1))"
  have r1: "raised (initialize_hivemind ?t) = Some (MisconfigurationException OnlyOneOptimizer)"
    by (simp add: initialize_hivemind_def)
  have r2: "raised (initialize_hivemind ?s) = Some TypeError"
    by (simp only: initialize_type_error [OF o k] raised.simps)
  have f1: "self_scheduler_fn ?t = None" by (simp add: constructed_fields default_args_def)
  have f2: "self_scheduler_fn ?s = None" by (simp add: constructed_fields default_args_def)
  from r1 r2 f1 f2 show ?thesis by (intro conjI)
qed

text \<open>
  Claim C3, as amended. The flags that call for a scheduler factory are
  \<^verbatim>\<open>delay_optimizer_step\<close>, \<^verbatim>\<open>delay_state_averaging\<close> and \<^verbatim>\<open>offload_optimizer\<close>;
  \<^verbatim>\<open>delay_grad_averaging\<close> is not among them. Take a strategy with no scheduler factory, one
  optimizer registered, the batch size given or inferred, and no pass-through keyword
  argument that repeats a keyword of the optimizer call. A training run of one or more
  batches then has exactly the effects listed in the theorem: the warning is emitted
  exactly once when one of the three flags is set and never otherwise, and the next
  effect after it is the construction of the peer-to-peer optimizer, so the warning does
  not halt the run. The run raises only afterwards, for a \<^verbatim>\<open>ReduceLROnPlateau\<close> scheduler
  or for gradient-buffer reuse without a model.
\<close>

theorem scheduler_fn_warning_once:
  assumes "scheduler_fn a = None"
    and "\<not> keyword_collision (optimizer_kwargs a)"
    and "batch_size a \<noteq> None \<or> (\<exists>n. ex b = BatchSize n)"
  shows "(\<exists>opt. events (final_state (train_batches ex i (b # bs)
              (attach [optimizer0] cfgs m (constructed environ vis a)))) =
            events (constructed environ vis a)
            @ (case batch_size a of
                 Some n \<Rightarrow> []
               | None \<Rightarrow> (case ex b of BatchSize n \<Rightarrow> [LogInfo (FoundBatchSize n)] | _ \<Rightarrow> []))
            @ (if truthy (delay_optimizer_step a) \<or> delay_state_averaging a \<or>
                  truthy (offload_optimizer a)
               then [RankZeroWarn RequiresSchedulerFn] else [])
            @ [Optimizer_created opt]
            @ (if list_ex is_ReduceLROnPlateau cfgs then []
               else LoadStateFromPeers #
                 (if reuse_grad_buffers a \<and> is_overridden m
                  then [RankZeroWarn ZeroGradDisabled] else []))) \<and>
         count_list
           (events (final_state (train_batches ex i (b # bs)
              (attach [optimizer0] cfgs m (constructed environ vis a)))))
           (RankZeroWarn RequiresSchedulerFn)
         = (if truthy (delay_optimizer_step a) \<or> delay_state_averaging a \<or>
               truthy (offload_optimizer a) then 1 else 0) \<and>
         raised (train_batches ex i (b # bs)
              (attach [optimizer0] cfgs m (constructed environ vis a)))
         = (if list_ex is_ReduceLROnPlateau cfgs then Some (ValueError PlateauNotSupported)
            else if reuse_grad_buffers a \<and> m = None then Some AssertionError
            else None)"
proof -
  let ?s = "attach [optimizer0] cfgs m (constructed environ vis a)"
  let ?s1 = "?s\<lparr>self_hivemind_initialized := True\<rparr>"
  let ?pre = "case batch_size a of
                 Some n \<Rightarrow> []
               | None \<Rightarrow> (case ex b of BatchSize n \<Rightarrow> [LogInfo (FoundBatchSize n)] | _ \<Rightarrow> [])"
  obtain s' where h: "on_train_batch_start ex b i ?s = initialize_hivemind s'"
    and o: "optimizers s' = [optimizer0]"
    and f: "self_scheduler_fn s' = None"
      "truthy (self_require_scheduler_fn s') =
        (truthy (delay_optimizer_step a) \<or> delay_state_averaging a \<or> truthy (offload_optimizer a))"
      "lr_scheduler_configs s' = cfgs" "lightning_module s' = m"
      "self_reuse_grad_buffers s' = reuse_grad_buffers a"
    and k: "kw_extra (self_optimizer_kwargs s') = optimizer_kwargs a"
    and e: "events s' = events (constructed environ vis a) @ ?pre"
  proof (cases "batch_size a")
    case (Some n)
    show ?thesis
      by (rule that [of ?s1])
         (simp_all add: on_train_batch_start_def constructed_fields Some assms(1))
  next
    case None
    with assms(3) obtain n where n: "ex b = BatchSize n" by auto
    show ?thesis
      by (rule that [of "emit (LogInfo (FoundBatchSize n)) (?s1\<lparr>self_batch_size := Some n\<rparr>)"])
         (simp_all add: on_train_batch_start_def constructed_fields None n assms(1))
  qed
  from new_optimizer_Inr [of s' optimizer0] k assms(2) obtain opt
    where n: "new_optimizer s' optimizer0 = Inr opt" by auto
  have t: "train_batches ex i (b # bs) ?s = initialize_hivemind s'"
    by (simp only: train_batches_first h)
  have w: "count_list (events (constructed environ vis a) @ ?pre)
             (RankZeroWarn RequiresSchedulerFn) = 0"
    by (simp add: constructed_fields split: option.splits extract_result.splits)
  have ev: "events (final_state (initialize_hivemind s')) =
            events (constructed environ vis a) @ ?pre
            @ (if truthy (delay_optimizer_step a) \<or> delay_state_averaging a \<or>
                  truthy (offload_optimizer a)
               then [RankZeroWarn RequiresSchedulerFn] else [])
            @ [Optimizer_created opt]
            @ (if list_ex is_ReduceLROnPlateau cfgs then []
               else LoadStateFromPeers #
                 (if reuse_grad_buffers a \<and> is_overridden m
                  then [RankZeroWarn ZeroGradDisabled] else []))"
    using initialize_events [OF o n] f e by simp
  have c: "count_list (events (final_state (initialize_hivemind s')))
             (RankZeroWarn RequiresSchedulerFn)
           = (if truthy (delay_optimizer_step a) \<or> delay_state_averaging a \<or>
               truthy (offload_optimizer a) then 1 else 0)"
    using w unfolding ev by simp
  have r: "raised (initialize_hivemind s')
         = (if list_ex is_ReduceLROnPlateau cfgs then Some (ValueError PlateauNotSupported)
            else if reuse_grad_buffers a \<and> m = None then Some AssertionError
            else None)"
    using initialize_raised [OF o n] f by simp
  show ?thesis
    unfolding t using ev c r by blast
qed

theorem scheduler_fn_warning_once_witness:
  "scheduler_fn ((default_args 1)\<lparr>delay_state_averaging := True\<rparr>) = None \<and>
   \<not> keyword_collision (optimizer_kwargs ((default_args 1)\<lparr>delay_state_averaging := True\<rparr>)) \<and>
   id (BatchSize 2) = BatchSize 2 \<and>
   count_list
     (events (final_state (train_batches id 0 [BatchSize 2, BatchSize 2, BatchSize 2]
        (attach [TorchOptimizer ''SGD'' [''group0'']] [LRScheduler ''step''] None
           (constructed Map.empty [] ((default_args 1)\<lparr>delay_state_averaging := True\<rparr>))))))
     (RankZeroWarn RequiresSchedulerFn) = 1 \<and>
   raised (train_batches id 0 [BatchSize 2, BatchSize 2, BatchSize 2]
        (attach [TorchOptimizer ''SGD'' [''group0'']] [LRScheduler ''step''] None
           (constructed Map.empty [] ((default_args 1)\<lparr>delay_state_averaging := True\<rparr>))))
     = None"
proof -
  let ?a = "(default_args 1)\<lparr>delay_state_averaging := True\<rparr>"
  have a: "scheduler_fn ?a = None" by (simp add: default_args_def)
  have k: "\<not> keyword_collision (optimizer_kwargs ?a)" by (simp add: default_args_def)
  have b: "batch_size ?a \<noteq> None \<or> (\<exists>n. id (BatchSize 2) = BatchSize n)" by simp
  have c: "delay_state_averaging ?a" "\<not> reuse_grad_buffers ?a"
    by (simp_all add: default_args_def)
  have d: "\<not> list_ex is_ReduceLROnPlateau [LRScheduler ''step'']"
    by (simp add: is_ReduceLROnPlateau_def)
  from scheduler_fn_warning_once
      [where a = ?a and ex = id and b = "BatchSize 2" and i = 0
         and bs = "[BatchSize 2, BatchSize 2]"
         and ?optimizer0.0 = "TorchOptimizer ''SGD'' [''group0'']"
         and cfgs = "[LRScheduler ''step'']" and m = None
         and environ = Map.empty and vis = "[]", OF a k b]
    a k c d
  show ?thesis by simp
qed

text \<open>
  Claim C3 as stated fails for \<^verbatim>\<open>delay_grad_averaging\<close>: with this flag alone and no
  scheduler factory, the run constructs the optimizer and emits no warning.
\<close>

theorem grad_averaging_flag_alone_gives_no_warning:
  "count_list
     (events (final_state (train_batches id 0 [BatchSize 2]
        (attach [TorchOptimizer ''SGD'' [''group0'']] [] None
           (constructed Map.empty [] ((default_args 1)\<lparr>delay_grad_averaging := True\<rparr>))))))
     (RankZeroWarn RequiresSchedulerFn) = 0 \<and>
   raised (train_batches id 0 [BatchSize 2]
        (attach [TorchOptimizer ''SGD'' [''group0'']] [] None
           (constructed Map.empty [] ((default_args 1)\<lparr>delay_grad_averaging := True\<rparr>))))
     = None \<and>
   delay_grad_averaging ((default_args 1)\<lparr>delay_grad_averaging := True\<rparr>) \<and>
   scheduler_fn ((default_args 1)\<lparr>delay_grad_averaging := True\<rparr>) = None"
proof -
  let ?a = "(default_args 1)\<lparr>delay_grad_averaging := True\<rparr>"
  let ?s = "attach [TorchOptimizer ''SGD'' [''group0'']] [] None (constructed Map.empty [] ?a)"
  let ?s1 = "emit (LogInfo (FoundBatchSize 2))
               (?s\<lparr>self_hivemind_initialized := True, self_batch_size := Some 2\<rparr>)"
  have h: "on_train_batch_start id (BatchSize 2) 0 ?s = initialize_hivemind ?s1"
    by (simp add: on_train_batch_start_def constructed_fields default_args_def)
  have o: "optimizers ?s1 = [TorchOptimizer ''SGD'' [''group0'']]" by simp
  have "\<not> keyword_collision (kw_extra (self_optimizer_kwargs ?s1))"
    by (simp add: constructed_fields default_args_def)
  from new_optimizer_Inr [OF this] obtain opt
    where n: "new_optimizer ?s1 (TorchOptimizer ''SGD'' [''group0'']) = Inr opt" by blast
  have t: "train_batches id 0 [BatchSize 2] ?s = initialize_hivemind ?s1"
    by (simp only: train_batches_first h)
  show ?thesis
    unfolding t
    using initialize_events [OF o n] initialize_raised [OF o n]
    by (simp add: constructed_fields default_args_def)
qed

subsection \<open>The first batch\<close>

text \<open>
  Claim C5. When no batch size was given to the constructor and the inference from the
  first batch fails, the first per-batch hook raises the configuration error that asks
  for the batch size. Nothing has happened by then but the construction itself: no
  peer-to-peer optimizer has been constructed and no state was requested from the peers.
\<close>

theorem batch_size_inference_failure:
  assumes "batch_size a = None" and "\<forall>n. ex batch \<noteq> BatchSize n"
  shows "raised (on_train_batch_start ex batch i (attach opts cfgs m (constructed environ vis a)))
           = Some (MisconfigurationException ProvideBatchSize) \<and>
         events (final_state
           (on_train_batch_start ex batch i (attach opts cfgs m (constructed environ vis a))))
           = events (constructed environ vis a) \<and>
         self_opt (final_state
           (on_train_batch_start ex batch i (attach opts cfgs m (constructed environ vis a))))
           = None \<and>
         (\<forall>opt. Optimizer_created opt \<notin> set (events (final_state
           (on_train_batch_start ex batch i (attach opts cfgs m (constructed environ vis a)))))) \<and>
         LoadStateFromPeers \<notin> set (events (final_state
           (on_train_batch_start ex batch i (attach opts cfgs m (constructed environ vis a)))))"
proof -
  let ?s = "attach opts cfgs m (constructed environ vis a)"
  have r: "on_train_batch_start ex batch i ?s =
      Raised (MisconfigurationException ProvideBatchSize) (?s\<lparr>self_hivemind_initialized := True\<rparr>)"
    using assms
    by (cases "ex batch")
       (simp_all add: on_train_batch_start_def constructed_fields Let_def)
  show ?thesis
    by (simp add: r constructed_fields)
qed

theorem batch_size_inference_failure_witness:
  "batch_size (default_args 1) = None \<and>
   (\<forall>n. id RaisesMisconfiguration \<noteq> BatchSize n) \<and>
   raised (on_train_batch_start id RaisesMisconfiguration 0
      (attach [TorchOptimizer ''SGD'' [''group0'']] [] None
         (constructed Map.empty [] (default_args 1))))
     = Some (MisconfigurationException ProvideBatchSize) \<and>
   LoadStateFromPeers \<notin> set (events (final_state
      (on_train_batch_start id RaisesMisconfiguration 0
         (attach [TorchOptimizer ''SGD'' [''group0'']] [] None
            (constructed Map.empty [] (default_args 1))))))"
proof -
  have a: "batch_size (default_args 1) = None" by (simp add: default_args_def)
  have b: "\<forall>n. id RaisesMisconfiguration \<noteq> BatchSize n" by simp
  from a b batch_size_inference_failure
    [of "default_args 1" id RaisesMisconfiguration 0 "[TorchOptimizer ''SGD'' [''group0'']]"
      "[]" None Map.empty "[]", OF a b]
  show ?thesis by blast
qed

subsection \<open>Teardown\<close>

text \<open>
  Claim C7. Teardown shuts the optimizer down only when it was constructed, and then, in
  this order, logs, shuts the peer handle down and runs the teardown of the base class.
  When one-time construction with gradient-buffer reuse has disabled the gradient-zeroing
  hook of the model, the hook is \<^verbatim>\<open>None\<close> after the construction and teardown puts the
  original hook back, so that the model is as it was; the optimizer exists then and is shut
  down before the peer handle.
\<close>

theorem teardown_restores_hook_then_shuts_down:
  "events (teardown self) =
     events self @ (case self_opt self of None \<Rightarrow> [] | Some opt \<Rightarrow> [OptimizerShutdown])
       @ [LogInfo ShuttingDownDHT, DHTShutdown, SuperTeardown] \<and>
   (initialize_hivemind s0 = Returned self \<and> self_reuse_grad_buffers s0 \<and>
      lightning_module s0 = Some lm \<longrightarrow>
        lightning_module self = Some (lm\<lparr>optimizer_zero_grad := None\<rparr>) \<and>
        lightning_module (teardown self) = Some lm \<and>
        events (teardown self) =
          events self @ [OptimizerShutdown, LogInfo ShuttingDownDHT, DHTShutdown, SuperTeardown])"
proof (intro conjI impI)
  show "events (teardown self) =
     events self @ (case self_opt self of None \<Rightarrow> [] | Some opt \<Rightarrow> [OptimizerShutdown])
       @ [LogInfo ShuttingDownDHT, DHTShutdown, SuperTeardown]"
    by (rule teardown_events)
next
  assume a: "initialize_hivemind s0 = Returned self \<and> self_reuse_grad_buffers s0 \<and>
      lightning_module s0 = Some lm"
  then have r: "lightning_module self = Some (lm\<lparr>optimizer_zero_grad := None\<rparr>)"
      "self_optimizer_zero_grad_original self = optimizer_zero_grad lm"
      "self_opt self \<noteq> None"
    using initialize_returned_reuse [of s0 self lm] by simp_all
  show "lightning_module self = Some (lm\<lparr>optimizer_zero_grad := None\<rparr>)" by (rule r(1))
  show "lightning_module (teardown self) = Some lm"
    using r by (cases "optimizer_zero_grad lm") (simp_all add: teardown_module)
  show "events (teardown self) =
          events self @ [OptimizerShutdown, LogInfo ShuttingDownDHT, DHTShutdown, SuperTeardown]"
    using r(3) by (auto simp: teardown_events)
qed


theorem teardown_restores_hook_then_shuts_down_witness:
  "initialize_hivemind
     (attach [TorchOptimizer ''SGD'' [''group0'']] []
        (Some \<lparr>optimizer_zero_grad = Some (OverriddenZeroGrad ''user'')\<rparr>)
        (constructed Map.empty [] ((default_args 1)\<lparr>reuse_grad_buffers := True\<rparr>)))
   = Returned (final_state (initialize_hivemind
     (attach [TorchOptimizer ''SGD'' [''group0'']] []
        (Some \<lparr>optimizer_zero_grad = Some (OverriddenZeroGrad ''user'')\<rparr>)
        (constructed Map.empty [] ((default_args 1)\<lparr>reuse_grad_buffers := True\<rparr>))))) \<and>
   self_reuse_grad_buffers
     (attach [TorchOptimizer ''SGD'' [''group0'']] []
        (Some \<lparr>optimizer_zero_grad = Some (OverriddenZeroGrad ''user'')\<rparr>)
        (constructed Map.empty [] ((default_args 1)\<lparr>reuse_grad_buffers := True\<rparr>))) \<and>
   lightning_module (final_state (initialize_hivemind
     (attach [TorchOptimizer ''SGD'' [''group0'']] []
        (Some \<lparr>optimizer_zero_grad = Some (OverriddenZeroGrad ''user'')\<rparr>)
        (constructed Map.empty [] ((default_args 1)\<lparr>reuse_grad_buffers := True\<rparr>)))))
   = Some \<lparr>optimizer_zero_grad = None\<rparr> \<and>
   lightning_module (teardown (final_state (initialize_hivemind
     (attach [TorchOptimizer ''SGD'' [''group0'']] []
        (Some \<lparr>optimizer_zero_grad = Some (OverriddenZeroGrad ''user'')\<rparr>)
        (constructed Map.empty [] ((default_args 1)\<lparr>reuse_grad_buffers := True\<rparr>))))))
   = Some \<lparr>optimizer_zero_grad = Some (OverriddenZeroGrad ''user'')\<rparr>"
proof -
  let ?lm = "\<lparr>optimizer_zero_grad = Some (OverriddenZeroGrad ''user'')\<rparr>"
  let ?s0 = "attach [TorchOptimizer ''SGD'' [''group0'']] [] (Some ?lm)
        (constructed Map.empty [] ((default_args 1)\<lparr>reuse_grad_buffers := True\<rparr>))"
  have o: "optimizers ?s0 = [TorchOptimizer ''SGD'' [''group0'']]" by simp
  have b: "self_reuse_grad_buffers ?s0" by (simp add: constructed_fields)
  have c: "lightning_module ?s0 = Some ?lm" by simp
  have "\<not> keyword_collision (kw_extra (self_optimizer_kwargs ?s0))"
    by (simp add: constructed_fields default_args_def)
  from new_optimizer_Inr [OF this] obtain opt
    where n: "new_optimizer ?s0 (TorchOptimizer ''SGD'' [''group0'']) = Inr opt" by blast
  have "raised (initialize_hivemind ?s0) = None"
    using initialize_raised [OF o n] by (simp add: constructed_fields)
  then have a: "initialize_hivemind ?s0 = Returned (final_state (initialize_hivemind ?s0))"
    by (rule raised_None)
  from teardown_restores_hook_then_shuts_down
      [of "final_state (initialize_hivemind ?s0)" ?s0 ?lm] a b c
  show ?thesis by simp
qed

subsection \<open>The scheduler shim\<close>

text \<open>
  Claim C2, as amended. Take any sequence of calls of the shim's step, each with the global
  step the optimizer reports at that call, starting from a new shim. The counter starts at
  \<open>-1\<close>, never decreases along the sequence, and ends at the largest global step reported
  at any call (or stays \<open>-1\<close>): it never exceeds the largest one reported, and it equals the
  last one reported when the reported global steps are those of a counter (not negative,
  never decreasing). The wrapped scheduler has received one step for each value the
  shim's counter has left, \<open>-1\<close> up to the last but one: these values are all different,
  and the number of steps is the advance of the shim's counter from \<open>-1\<close>, however many
  calls the sequence has. The first of them is forwarded for reaching global step 0.
\<close>

theorem shim_forwards_once_per_global_step:
  assumes "steps obs (HiveMindScheduler_init opt sch, []) = (h, calls)"
  shows "current_step (HiveMindScheduler_init opt sch) = - 1 \<and>
         current_step h = Max (insert (- 1) (fst ` set obs)) \<and>
         map fst calls = [- 1..current_step h - 1] \<and>
         distinct (map fst calls) \<and>
         int (length calls) = current_step h + 1 \<and>
         (\<forall>k \<le> length obs.
            current_step (fst (steps (take k obs) (HiveMindScheduler_init opt sch, [])))
              \<le> current_step h) \<and>
         (obs \<noteq> [] \<and> sorted (map fst obs) \<and> 0 \<le> fst (hd obs) \<longrightarrow>
            current_step h = fst (last obs))"
proof -
  have inv: "\<And>os h' calls'. steps os (HiveMindScheduler opt sch (- 1), []) = (h', calls') \<Longrightarrow>
      h' = HiveMindScheduler opt sch (Max (insert (- 1) (fst ` set os)))
      \<and> map fst calls' = [- 1..current_step h' - 1]"
    by (rule steps_invariant [where calls = "[]"]) simp_all
  from assms have s: "steps obs (HiveMindScheduler opt sch (- 1), []) = (h, calls)"
    by (simp add: HiveMindScheduler_init_def)
  from inv [OF s] have c: "current_step h = Max (insert (- 1) (fst ` set obs))"
    and m: "map fst calls = [- 1..current_step h - 1]" by simp_all
  have ge: "- 1 \<le> current_step h" unfolding c by simp
  have len: "int (length calls) = current_step h + 1"
  proof -
    have "length calls = length (map fst calls)" by simp
    also have "\<dots> = nat (current_step h - 1 - (- 1) + 1)" unfolding m by simp
    finally show ?thesis using ge by simp
  qed
  have mono: "\<forall>k \<le> length obs.
      current_step (fst (steps (take k obs) (HiveMindScheduler_init opt sch, []))) \<le> current_step h"
  proof (intro allI impI)
    fix k assume "k \<le> length obs"
    obtain h' calls' where p: "steps (take k obs) (HiveMindScheduler opt sch (- 1), []) = (h', calls')"
      by (cases "steps (take k obs) (HiveMindScheduler opt sch (- 1), [])")
    from inv [OF p] have "current_step h' = Max (insert (- 1) (fst ` set (take k obs)))" by simp
    also have "\<dots> \<le> Max (insert (- 1) (fst ` set obs))"
      by (rule Max_mono) (auto dest: in_set_takeD)
    finally show "current_step (fst (steps (take k obs) (HiveMindScheduler_init opt sch, [])))
        \<le> current_step h"
      by (simp add: HiveMindScheduler_init_def p c)
  qed
  have last: "obs \<noteq> [] \<and> sorted (map fst obs) \<and> 0 \<le> fst (hd obs) \<longrightarrow>
      current_step h = fst (last obs)"
  proof
    assume a: "obs \<noteq> [] \<and> sorted (map fst obs) \<and> 0 \<le> fst (hd obs)"
    then have ne: "map fst obs \<noteq> []" by simp
    have l: "last (map fst obs) = fst (last obs)" using a by (simp add: last_map)
    have up: "\<And>y. y \<in> set (map fst obs) \<Longrightarrow> y \<le> fst (last obs)"
      using sorted_le_last [of "map fst obs"] a l by simp
    have "fst (hd obs) \<in> set (map fst obs)" using a by (cases obs) simp_all
    from up [OF this] a have "- 1 \<le> fst (last obs)" by simp
    moreover have "fst (last obs) \<in> fst ` set obs" using a by simp
    ultimately have "Max (insert (- 1) (fst ` set obs)) = fst (last obs)"
      using up by (intro Max_eqI) auto
    then show "current_step h = fst (last obs)" by (simp add: c)
  qed
  show ?thesis
    using c m len mono last by (simp add: HiveMindScheduler_init_def)
qed

theorem shim_forwards_once_per_global_step_witness:
  "steps [(0, None), (0, None), (2, Some 7), (2, None)]
     (HiveMindScheduler_init (TorchOptimizer ''SGD'' [''group0'']) (LRScheduler ''step''), [])
   = (HiveMindScheduler (TorchOptimizer ''SGD'' [''group0'']) (LRScheduler ''step'') 2,
      [(- 1, None), (0, Some 7), (1, Some 7)]) \<and>
   map fst [(- 1 :: int, None :: int option), (0, Some 7), (1, Some 7)] = [- 1..2 - 1] \<and>
   int (length [(- 1 :: int, None :: int option), (0, Some 7), (1, Some 7)]) = 2 + 1 \<and>
   sorted (map fst [(0 :: int, None :: int option), (0, None), (2, Some 7), (2, None)]) \<and>
   (2 :: int) = fst (last [(0 :: int, None :: int option), (0, None), (2, Some 7), (2, None)])"
proof -
  have e: "steps [(0, None), (0, None), (2, Some 7), (2, None)]
     (HiveMindScheduler_init (TorchOptimizer ''SGD'' [''group0'']) (LRScheduler ''step''), [])
   = (HiveMindScheduler (TorchOptimizer ''SGD'' [''group0'']) (LRScheduler ''step'') 2,
      [(- 1, None), (0, Some 7), (1, Some 7)])"
    by (simp add: HiveMindScheduler_init_def)
  from shim_forwards_once_per_global_step [OF e] e show ?thesis by simp
qed

text \<open>
  Claim C2 as stated fails in two places. The counter can exceed the last global step
  observed: when the optimizer reports 5 and then 3, the counter stays at 5. And the steps
  forwarded are counted from \<open>-1\<close>, not by the advance of the optimizer: a first call at
  global step 0 forwards one step although the global step has not advanced, and it does
  so once, however often the call is repeated.
\<close>

theorem shim_counter_above_last_global_step:
  "steps [(5, None), (3, None)]
     (HiveMindScheduler_init (TorchOptimizer ''SGD'' [''group0'']) (LRScheduler ''step''), [])
   = (HiveMindScheduler (TorchOptimizer ''SGD'' [''group0'']) (LRScheduler ''step'') 5,
      [(- 1, None), (0, None), (1, None), (2, None), (3, None), (4, None)]) \<and>
   fst (last [(5 :: int, None :: int option), (3, None)]) < 5 \<and>
   steps [(0, None), (0, None), (0, None)]
     (HiveMindScheduler_init (TorchOptimizer ''SGD'' [''group0'']) (LRScheduler ''step''), [])
   = (HiveMindScheduler (TorchOptimizer ''SGD'' [''group0'']) (LRScheduler ''step'') 0,
      [(- 1, None)])"
  by (simp add: HiveMindScheduler_init_def)

end
